theory Spec2Isabelle
  imports Main "HOL-Library.Word"
begin

unbundle bit_operations_syntax

section \<open>ATmega128 fan and servo controller (ATmega128\_fan.c)\<close>

text \<open>
  The controller is one C file: a set of volatile globals, an SPI transfer-complete
  interrupt handler, and a polled main loop. The globals, the device registers that the
  control logic writes and the two debounce latches of \<open>main\<close> form one state record;
  each C function is a function from state to state. \<open>uint8_t\<close> is \<open>8 word\<close>,
  \<open>uint16_t\<close> is \<open>16 word\<close>.

  Granularity: one invocation of the interrupt handler is a single step (the hardware
  masks interrupts while it runs). One iteration of the \<open>while (1)\<close> body is given
  twice: as a single step, \<open>main_loop_body\<close>, where the handler runs only between two
  iterations (during the 2 ms pacing delay), and as \<open>main_loop_body_irq\<close>, where the
  handler also runs during the 50 ms debounce wait of the speed button. Interrupts are
  enabled before the loop and never masked, so both happen. Preemption at other points of
  the loop body is not modelled. Busy-wait delays themselves have no effect on the state.
\<close>

subsection \<open>Constants\<close>

definition STATUS_RUNNING :: "8 word" where "STATUS_RUNNING = 222"
definition STATUS_READY :: "8 word" where "STATUS_READY = 111"
definition STATUS_HOMING_OFF :: "8 word" where "STATUS_HOMING_OFF = 0"

definition SWITCH_SPEED_PIN :: nat where "SWITCH_SPEED_PIN = 0"   \<comment> \<open>PD0\<close>
definition SWITCH_TOGGLE_PIN :: nat where "SWITCH_TOGGLE_PIN = 1"  \<comment> \<open>PD1\<close>

definition LED_LOW_PIN :: nat where "LED_LOW_PIN = 0"        \<comment> \<open>PC0\<close>
definition LED_MEDIUM_PIN :: nat where "LED_MEDIUM_PIN = 1"  \<comment> \<open>PC1\<close>
definition LED_HIGH_PIN :: nat where "LED_HIGH_PIN = 2"      \<comment> \<open>PC2\<close>

definition FAN_PWM_PIN :: nat where "FAN_PWM_PIN = 3"        \<comment> \<open>PE3\<close>

text \<open>
  Bit positions of the Timer3 control registers, from the device header of the
  ATmega128 (\<open>avr/io.h\<close>, not part of the repository).
\<close>

definition COM3A1 :: nat where "COM3A1 = 7"
definition WGM31 :: nat where "WGM31 = 1"
definition WGM33 :: nat where "WGM33 = 4"
definition WGM32 :: nat where "WGM32 = 3"
definition CS30 :: nat where "CS30 = 0"

text \<open>
  The duty constants are \<open>(uint16_t)(ICR_8KHZ * 0.2)\<close> and so on: the product is
  399.8, 799.6 and 1199.4, and the cast drops the fraction. The same values are
  computed here with integer division.
\<close>

definition ICR_8KHZ :: nat where "ICR_8KHZ = 1999"
definition DUTY_LOW :: "16 word" where "DUTY_LOW = of_nat (ICR_8KHZ * 2 div 10)"
definition DUTY_MEDIUM :: "16 word" where "DUTY_MEDIUM = of_nat (ICR_8KHZ * 4 div 10)"
definition DUTY_HIGH :: "16 word" where "DUTY_HIGH = of_nat (ICR_8KHZ * 6 div 10)"

definition SERVO_CW_MAX :: int where "SERVO_CW_MAX = 610"
definition SERVO_CCW_MAX :: int where "SERVO_CCW_MAX = 140"
definition SERVO_CENTER :: "16 word" where "SERVO_CENTER = 375"

subsection \<open>State\<close>

record state =
  motor_running :: "8 word"
  speed_level :: "8 word"
  user_ready_flag :: "8 word"
  servo_homing_required :: "8 word"
  servo_current_ocr :: "16 word"
  servo_target_ocr :: "16 word"
  current_spi_status :: "8 word"
  SPDR :: "8 word"
  OCR1A :: "16 word"
  OCR3A :: "16 word"
  ICR3 :: "16 word"
  TCCR3A :: "8 word"
  TCCR3B :: "8 word"
  FAN_PWM_PORT :: "8 word"
  LED_PORT :: "8 word"
  toggle_button_pressed :: "8 word"
  speed_button_pressed :: "8 word"

subsection \<open>Fan functions\<close>

text \<open>
  \<open>update_leds\<close>: the three LED bits are cleared; when the fan runs, the
  \<open>switch\<close> falls through from the case of the current level down to case 0.
\<close>

definition update_leds :: "state \<Rightarrow> state" where
  "update_leds s =
     (let s1 = s\<lparr>LED_PORT := LED_PORT s AND
                   NOT (push_bit LED_LOW_PIN 1 OR push_bit LED_MEDIUM_PIN 1 OR push_bit LED_HIGH_PIN 1)\<rparr>
      in if motor_running s1 = 0 then s1
         else if speed_level s1 = 2 then
           s1\<lparr>LED_PORT := LED_PORT s1 OR push_bit LED_HIGH_PIN 1 OR push_bit LED_MEDIUM_PIN 1
                              OR push_bit LED_LOW_PIN 1\<rparr>
         else if speed_level s1 = 1 then
           s1\<lparr>LED_PORT := LED_PORT s1 OR push_bit LED_MEDIUM_PIN 1 OR push_bit LED_LOW_PIN 1\<rparr>
         else if speed_level s1 = 0 then
           s1\<lparr>LED_PORT := LED_PORT s1 OR push_bit LED_LOW_PIN 1\<rparr>
         else s1)"

definition set_fan_speed :: "8 word \<Rightarrow> state \<Rightarrow> state" where
  "set_fan_speed level s =
     update_leds
       (if level = 0 then s\<lparr>OCR3A := DUTY_HIGH\<rparr>
        else if level = 1 then s\<lparr>OCR3A := DUTY_MEDIUM\<rparr>
        else if level = 2 then s\<lparr>OCR3A := DUTY_LOW\<rparr>
        else s)"

definition start_fan :: "state \<Rightarrow> state" where
  "start_fan s =
     (let s1 = s\<lparr>motor_running := 1, speed_level := 0\<rparr>;
          s2 = s1\<lparr>TCCR3A := TCCR3A s1 OR push_bit COM3A1 1\<rparr>;
          s3 = set_fan_speed (speed_level s2) s2
      in s3\<lparr>TCCR3B := TCCR3B s3 OR push_bit CS30 1\<rparr>)"

definition stop_fan :: "state \<Rightarrow> state" where
  "stop_fan s =
     (let s1 = s\<lparr>motor_running := 0\<rparr>;
          s2 = s1\<lparr>TCCR3B := TCCR3B s1 AND NOT (push_bit CS30 1)\<rparr>;
          s3 = s2\<lparr>TCCR3A := TCCR3A s2 AND NOT (push_bit COM3A1 1)\<rparr>;
          s4 = s3\<lparr>FAN_PWM_PORT := FAN_PWM_PORT s3 AND NOT (push_bit FAN_PWM_PIN 1)\<rparr>
      in update_leds (s4\<lparr>speed_level := 0\<rparr>))"

subsection \<open>SPI interrupt handler\<close>

text \<open>
  C division truncates towards zero. The operands of the angle formula are computed in
  \<open>long\<close>; for a byte they stay between \<open>-4700\<close> and \<open>115150\<close>, so unbounded
  integers give the same value. The assignment to the \<open>uint16_t\<close> target reduces
  modulo \<open>2^16\<close>.
\<close>

definition c_div :: "int \<Rightarrow> int \<Rightarrow> int" where
  "c_div a b = sgn a * sgn b * (\<bar>a\<bar> div \<bar>b\<bar>)"

definition angle_ocr_value :: "8 word \<Rightarrow> int" where
  "angle_ocr_value received_data =
     c_div ((uint received_data - 10) * (SERVO_CW_MAX - SERVO_CCW_MAX)) 160 + SERVO_CCW_MAX"

text \<open>
  The handler reads the received byte from \<open>SPDR\<close> (its argument here), acts on it,
  and writes the stored status code to \<open>SPDR\<close> as the reply of the next transfer.
\<close>

definition ISR_SPI_STC :: "8 word \<Rightarrow> state \<Rightarrow> state" where
  "ISR_SPI_STC received_data s =
     (let s1 =
        (if received_data = 200 then
           (let s2 = (if motor_running s \<noteq> 0 then stop_fan s else s)
            in s2\<lparr>user_ready_flag := 0, servo_homing_required := 1\<rparr>)
         else if 10 \<le> received_data \<and> received_data \<le> 170 then
           (if user_ready_flag s = 1 \<and> motor_running s = 1
            then s\<lparr>servo_target_ocr := word_of_int (angle_ocr_value received_data)\<rparr>
            else s)
         else if received_data = 255 then
           (if current_spi_status s = STATUS_READY then start_fan s else s)
         else s)
      in s1\<lparr>SPDR := current_spi_status s1\<rparr>)"

subsection \<open>Main loop\<close>

text \<open>
  One iteration of the loop reads \<open>PIND\<close> twice, once for each button. The first
  part handles the on/off button (PD1), the second part depends on whether the fan runs.
\<close>

definition toggle_button_section :: "8 word \<Rightarrow> state \<Rightarrow> state" where
  "toggle_button_section pind s =
     (if pind AND push_bit SWITCH_TOGGLE_PIN 1 \<noteq> 0 then
        (if toggle_button_pressed s = 0 then
           (let s1 = s\<lparr>toggle_button_pressed := 1\<rparr>
            in if user_ready_flag s1 = 1 then
                 (let s2 = s1\<lparr>user_ready_flag := 0\<rparr>;
                      s3 = (if motor_running s2 \<noteq> 0 then stop_fan s2 else s2)
                  in s3\<lparr>servo_homing_required := 1\<rparr>)
               else s1\<lparr>user_ready_flag := 1, servo_target_ocr := SERVO_CENTER,
                        servo_homing_required := 1\<rparr>)
         else s)
      else s\<lparr>toggle_button_pressed := 0\<rparr>)"

definition speed_button_section :: "8 word \<Rightarrow> state \<Rightarrow> state" where
  "speed_button_section pind s =
     (if pind AND push_bit SWITCH_SPEED_PIN 1 \<noteq> 0 then
        (if speed_button_pressed s = 0 then
           (let s1 = s\<lparr>speed_button_pressed := 1\<rparr>;
                s2 = s1\<lparr>speed_level := speed_level s1 + 1\<rparr>;
                s3 = (if speed_level s2 > 2 then s2\<lparr>speed_level := 0\<rparr> else s2)
            in set_fan_speed (speed_level s3) s3)
         else s)
      else s\<lparr>speed_button_pressed := 0\<rparr>)"

definition servo_track :: "state \<Rightarrow> state" where
  "servo_track s =
     (if servo_current_ocr s < servo_target_ocr s then
        (let s1 = s\<lparr>servo_current_ocr := servo_current_ocr s + 1\<rparr>
         in s1\<lparr>OCR1A := servo_current_ocr s1\<rparr>)
      else if servo_current_ocr s > servo_target_ocr s then
        (let s1 = s\<lparr>servo_current_ocr := servo_current_ocr s - 1\<rparr>
         in s1\<lparr>OCR1A := servo_current_ocr s1\<rparr>)
      else s)"

definition servo_homing :: "state \<Rightarrow> state" where
  "servo_homing s =
     (if servo_homing_required s \<noteq> 0 \<or> user_ready_flag s = 1 then
        (if servo_current_ocr s < SERVO_CENTER then
           (let s1 = s\<lparr>servo_current_ocr := servo_current_ocr s + 1\<rparr>
            in s1\<lparr>OCR1A := servo_current_ocr s1\<rparr>)
         else if servo_current_ocr s > SERVO_CENTER then
           (let s1 = s\<lparr>servo_current_ocr := servo_current_ocr s - 1\<rparr>
            in s1\<lparr>OCR1A := servo_current_ocr s1\<rparr>)
         else s\<lparr>servo_homing_required := 0\<rparr>)
      else s)"

definition fan_state_section :: "8 word \<Rightarrow> state \<Rightarrow> state" where
  "fan_state_section pind s =
     (if motor_running s \<noteq> 0 then
        (let s1 = speed_button_section pind s;
             s2 = servo_track s1
         in s2\<lparr>current_spi_status := STATUS_RUNNING\<rparr>)
      else
        (let s1 = servo_homing s
         in if user_ready_flag s1 = 1 \<and> servo_current_ocr s1 = SERVO_CENTER
            then s1\<lparr>current_spi_status := STATUS_READY\<rparr>
            else s1\<lparr>current_spi_status := STATUS_HOMING_OFF\<rparr>))"

definition main_loop_body :: "8 word \<Rightarrow> 8 word \<Rightarrow> state \<Rightarrow> state" where
  "main_loop_body pind_toggle pind_speed s =
     fan_state_section pind_speed (toggle_button_section pind_toggle s)"

subsection \<open>Start-up\<close>

text \<open>
  Before \<open>main\<close> runs, the C runtime gives every global its initialiser (zero for the
  two servo positions, which have none). The registers keep whatever the hardware holds.
\<close>

definition static_init :: "state \<Rightarrow> state" where
  "static_init hw =
     hw\<lparr>motor_running := 0, speed_level := 0, user_ready_flag := 0,
        servo_homing_required := 0, servo_current_ocr := 0, servo_target_ocr := 0,
        current_spi_status := 0\<rparr>"

definition init_timer3_fan_pwm :: "state \<Rightarrow> state" where
  "init_timer3_fan_pwm s =
     s\<lparr>TCCR3A := push_bit WGM31 1,
       TCCR3B := push_bit WGM33 1 OR push_bit WGM32 1,
       ICR3 := of_nat ICR_8KHZ\<rparr>"

text \<open>
  The part of \<open>main\<close> before the loop. \<open>init_ports\<close>, \<open>init_timer1_servo\<close> and
  \<open>init_spi_slave\<close> only write pin-direction and mode registers that no other function
  reads or writes; they are not part of the state.
\<close>

definition main_startup :: "state \<Rightarrow> state" where
  "main_startup hw =
     (let s0 = init_timer3_fan_pwm (static_init hw);
          s1 = s0\<lparr>servo_current_ocr := SERVO_CENTER\<rparr>;
          s2 = s1\<lparr>servo_target_ocr := SERVO_CENTER\<rparr>;
          s3 = s2\<lparr>OCR1A := servo_current_ocr s2\<rparr>;
          s4 = stop_fan s3;
          s5 = s4\<lparr>user_ready_flag := 0, servo_homing_required := 0\<rparr>;
          s6 = s5\<lparr>SPDR := STATUS_HOMING_OFF\<rparr>
      in s6\<lparr>toggle_button_pressed := 0, speed_button_pressed := 0\<rparr>)"

subsection \<open>Operations and reachable states\<close>

datatype event =
    Tick "8 word" "8 word"   \<comment> \<open>one loop iteration, with the two samples of \<open>PIND\<close>\<close>
  | Transfer "8 word"        \<comment> \<open>one SPI transfer, with the byte received\<close>

fun step :: "event \<Rightarrow> state \<Rightarrow> state" where
  "step (Tick pind_toggle pind_speed) s = main_loop_body pind_toggle pind_speed s"
| "step (Transfer received_data) s = ISR_SPI_STC received_data s"

fun run :: "event list \<Rightarrow> state \<Rightarrow> state" where
  "run [] s = s"
| "run (e # es) s = run es (step e s)"

text \<open>
  \<open>reachable\<close> holds of the states reached from start-up by whole steps: iterations that
  no handler interrupts, and handler runs between them. A state that only an interrupted
  iteration produces is not among them.
\<close>

inductive reachable :: "state \<Rightarrow> bool" where
  startup: "reachable (main_startup hw)"
| step: "reachable s \<Longrightarrow> reachable (step e s)"

text \<open>The status the loop derives from the other fields.\<close>

definition derived_status :: "state \<Rightarrow> 8 word" where
  "derived_status s =
     (if motor_running s \<noteq> 0 then STATUS_RUNNING
      else if user_ready_flag s = 1 \<and> servo_current_ocr s = SERVO_CENTER then STATUS_READY
      else STATUS_HOMING_OFF)"

subsection \<open>Predicates used in the properties\<close>

text \<open>The flags only ever hold 0 or 1.\<close>

definition inv_flags :: "state \<Rightarrow> bool" where
  "inv_flags s \<longleftrightarrow>
     (motor_running s = 0 \<or> motor_running s = 1) \<and>
     (user_ready_flag s = 0 \<or> user_ready_flag s = 1) \<and>
     (servo_homing_required s = 0 \<or> servo_homing_required s = 1)"

definition inv_level :: "state \<Rightarrow> bool" where
  "inv_level s \<longleftrightarrow> speed_level s \<le> 2 \<and> (motor_running s = 0 \<longrightarrow> speed_level s = 0)"

text \<open>
  The fan PWM output is off when Timer3 has no clock (\<open>CS30\<close> clear), the compare
  output is disconnected from the pin (\<open>COM3A1\<close> clear) and the pin itself is low.
\<close>

definition fan_pwm_disabled :: "state \<Rightarrow> bool" where
  "fan_pwm_disabled s \<longleftrightarrow>
     \<not> bit (TCCR3B s) CS30 \<and> \<not> bit (TCCR3A s) COM3A1 \<and> \<not> bit (FAN_PWM_PORT s) FAN_PWM_PIN"

definition fan_pwm_enabled :: "state \<Rightarrow> bool" where
  "fan_pwm_enabled s \<longleftrightarrow> bit (TCCR3B s) CS30 \<and> bit (TCCR3A s) COM3A1"

definition inv_pwm :: "state \<Rightarrow> bool" where
  "inv_pwm s \<longleftrightarrow> (motor_running s = 0 \<longrightarrow> fan_pwm_disabled s)"

definition inv_range :: "state \<Rightarrow> bool" where
  "inv_range s \<longleftrightarrow>
     140 \<le> servo_current_ocr s \<and> servo_current_ocr s \<le> 610 \<and>
     140 \<le> servo_target_ocr s \<and> servo_target_ocr s \<le> 610"

text \<open>The four invariants together.\<close>

definition state_inv :: "state \<Rightarrow> bool" where
  "state_inv s \<longleftrightarrow> inv_flags s \<and> inv_level s \<and> inv_pwm s \<and> inv_range s"

subsection \<open>Concrete states\<close>

text \<open>
  A power-on snapshot with every register zero, the state after the on/off button has been
  pressed and released once, and the state after a START byte received there.
\<close>


definition hw_zero :: state where
  "hw_zero = \<lparr>motor_running = 0, speed_level = 0, user_ready_flag = 0, servo_homing_required = 0,
     servo_current_ocr = 0, servo_target_ocr = 0, current_spi_status = 0, SPDR = 0, OCR1A = 0,
     OCR3A = 0, ICR3 = 0, TCCR3A = 0, TCCR3B = 0, FAN_PWM_PORT = 0, LED_PORT = 0,
     toggle_button_pressed = 0, speed_button_pressed = 0\<rparr>"

definition ready_state :: state where
  "ready_state = run [Tick 2 0, Tick 0 0] (main_startup hw_zero)"

definition running_state :: state where
  "running_state = run [Transfer 255] ready_state"

subsection \<open>Quiet iterations and servo distance\<close>

text \<open>
  A quiet event is a loop iteration during which the on/off button is not pressed; no
  byte arrives. The speed button may do anything.
\<close>

fun quiet_tick :: "event \<Rightarrow> bool" where
  "quiet_tick (Tick pind_toggle pind_speed) = (pind_toggle AND push_bit SWITCH_TOGGLE_PIN 1 = 0)"
| "quiet_tick (Transfer received_data) = False"

text \<open>The distance between two servo positions, in pulse-width units.\<close>

definition servo_distance :: "16 word \<Rightarrow> 16 word \<Rightarrow> nat" where
  "servo_distance a b = nat \<bar>uint a - uint b\<bar>"

text \<open>
  Two more concrete states. In the first the device is off with the servo at the
  10-degree end: the fan ran with the target at 140 and a RESET byte has just
  arrived. The second is reached from \<open>running_state\<close> by an ANGLE byte 91 (target 377)
  followed by a RESET byte.
\<close>

definition idle_ccw_state :: state where
  "idle_ccw_state = \<lparr>motor_running = 0, speed_level = 0, user_ready_flag = 0,
     servo_homing_required = 1, servo_current_ocr = 140, servo_target_ocr = 140,
     current_spi_status = 222, SPDR = 222, OCR1A = 140, OCR3A = 1199, ICR3 = 1999, TCCR3A = 2,
     TCCR3B = 24, FAN_PWM_PORT = 0, LED_PORT = 0, toggle_button_pressed = 0,
     speed_button_pressed = 0\<rparr>"

definition reset_state :: state where
  "reset_state = run [Transfer 91, Transfer 200] running_state"

subsection \<open>An iteration interrupted during the speed-button wait\<close>

text \<open>
  The running branch of the loop tests \<open>motor_running\<close>, sets the latch of the speed
  button, waits 50 ms and only then increments the level. Transfers that complete during
  the wait run the handler there, one after the other; \<open>received\<close> lists their bytes.
  The rest of the iteration is as before. With no byte the iteration is \<open>main_loop_body\<close>.
\<close>

definition speed_button_section_irq :: "8 word \<Rightarrow> 8 word list \<Rightarrow> state \<Rightarrow> state" where
  "speed_button_section_irq pind received s =
     (if pind AND push_bit SWITCH_SPEED_PIN 1 \<noteq> 0 then
        (if speed_button_pressed s = 0 then
           (let s1 = s\<lparr>speed_button_pressed := 1\<rparr>;
                w = fold ISR_SPI_STC received s1;
                s2 = w\<lparr>speed_level := speed_level w + 1\<rparr>;
                s3 = (if speed_level s2 > 2 then s2\<lparr>speed_level := 0\<rparr> else s2)
            in set_fan_speed (speed_level s3) s3)
         else s)
      else s\<lparr>speed_button_pressed := 0\<rparr>)"

definition fan_state_section_irq :: "8 word \<Rightarrow> 8 word list \<Rightarrow> state \<Rightarrow> state" where
  "fan_state_section_irq pind received s =
     (if motor_running s \<noteq> 0 then
        (let s1 = speed_button_section_irq pind received s;
             s2 = servo_track s1
         in s2\<lparr>current_spi_status := STATUS_RUNNING\<rparr>)
      else
        (let s1 = servo_homing s
         in if user_ready_flag s1 = 1 \<and> servo_current_ocr s1 = SERVO_CENTER
            then s1\<lparr>current_spi_status := STATUS_READY\<rparr>
            else s1\<lparr>current_spi_status := STATUS_HOMING_OFF\<rparr>))"

definition main_loop_body_irq :: "8 word \<Rightarrow> 8 word \<Rightarrow> 8 word list \<Rightarrow> state \<Rightarrow> state" where
  "main_loop_body_irq pind_toggle pind_speed received s =
     fan_state_section_irq pind_speed received (toggle_button_section pind_toggle s)"

section \<open>Properties\<close>

lemmas const_defs =
  STATUS_RUNNING_def STATUS_READY_def STATUS_HOMING_OFF_def
  SWITCH_SPEED_PIN_def SWITCH_TOGGLE_PIN_def
  LED_LOW_PIN_def LED_MEDIUM_PIN_def LED_HIGH_PIN_def FAN_PWM_PIN_def
  COM3A1_def WGM31_def WGM33_def WGM32_def CS30_def
  ICR_8KHZ_def DUTY_LOW_def DUTY_MEDIUM_def DUTY_HIGH_def
  SERVO_CW_MAX_def SERVO_CCW_MAX_def SERVO_CENTER_def

subsection \<open>What the fan functions change\<close>

lemma stop_fan_eq:
  "stop_fan s = s\<lparr>motor_running := 0,
      TCCR3B := TCCR3B s AND NOT (push_bit CS30 1),
      TCCR3A := TCCR3A s AND NOT (push_bit COM3A1 1),
      FAN_PWM_PORT := FAN_PWM_PORT s AND NOT (push_bit FAN_PWM_PIN 1),
      speed_level := 0,
      LED_PORT := LED_PORT s AND
         NOT (push_bit LED_LOW_PIN 1 OR push_bit LED_MEDIUM_PIN 1 OR push_bit LED_HIGH_PIN 1)\<rparr>"
  by (simp add: stop_fan_def update_leds_def Let_def)

lemma start_fan_eq:
  "start_fan s = s\<lparr>motor_running := 1, speed_level := 0,
      TCCR3A := TCCR3A s OR push_bit COM3A1 1,
      OCR3A := DUTY_HIGH,
      LED_PORT := (LED_PORT s AND
         NOT (push_bit LED_LOW_PIN 1 OR push_bit LED_MEDIUM_PIN 1 OR push_bit LED_HIGH_PIN 1))
         OR push_bit LED_LOW_PIN 1,
      TCCR3B := TCCR3B s OR push_bit CS30 1\<rparr>"
  by (simp add: start_fan_def set_fan_speed_def update_leds_def Let_def)

lemma set_fan_speed_fields [simp]:
  "motor_running (set_fan_speed l s) = motor_running s"
  "speed_level (set_fan_speed l s) = speed_level s"
  "user_ready_flag (set_fan_speed l s) = user_ready_flag s"
  "servo_homing_required (set_fan_speed l s) = servo_homing_required s"
  "servo_current_ocr (set_fan_speed l s) = servo_current_ocr s"
  "servo_target_ocr (set_fan_speed l s) = servo_target_ocr s"
  "current_spi_status (set_fan_speed l s) = current_spi_status s"
  "TCCR3A (set_fan_speed l s) = TCCR3A s"
  "TCCR3B (set_fan_speed l s) = TCCR3B s"
  "FAN_PWM_PORT (set_fan_speed l s) = FAN_PWM_PORT s"
  "toggle_button_pressed (set_fan_speed l s) = toggle_button_pressed s"
  "speed_button_pressed (set_fan_speed l s) = speed_button_pressed s"
  by (simp_all add: set_fan_speed_def update_leds_def Let_def)

subsection \<open>The flags hold 0 or 1\<close>

lemma inv_flags_isr: "inv_flags s \<Longrightarrow> inv_flags (ISR_SPI_STC b s)"
  by (auto simp add: inv_flags_def ISR_SPI_STC_def stop_fan_eq start_fan_eq Let_def)

lemma inv_flags_toggle: "inv_flags s \<Longrightarrow> inv_flags (toggle_button_section p s)"
  by (auto simp add: inv_flags_def toggle_button_section_def stop_fan_eq Let_def)

lemma inv_flags_fan: "inv_flags s \<Longrightarrow> inv_flags (fan_state_section p s)"
  by (auto simp add: inv_flags_def fan_state_section_def speed_button_section_def
      servo_track_def servo_homing_def Let_def)

lemma inv_flags_startup: "inv_flags (main_startup hw)"
  by (simp add: inv_flags_def main_startup_def stop_fan_eq Let_def)


subsection \<open>Speed level\<close>

lemma inv_level_isr: "inv_level s \<Longrightarrow> inv_level (ISR_SPI_STC b s)"
  by (auto simp add: inv_level_def ISR_SPI_STC_def stop_fan_eq start_fan_eq Let_def)

lemma inv_level_toggle: "inv_level s \<Longrightarrow> inv_level (toggle_button_section p s)"
  by (auto simp add: inv_level_def toggle_button_section_def stop_fan_eq Let_def)

lemma inv_level_speed_button:
  "inv_level s \<Longrightarrow> motor_running s \<noteq> 0 \<Longrightarrow> inv_level (speed_button_section p s)"
  by (auto simp add: inv_level_def speed_button_section_def Let_def not_less)

lemma inv_level_fan: "inv_level s \<Longrightarrow> inv_level (fan_state_section p s)"
  using inv_level_speed_button[of s p]
  by (auto simp add: inv_level_def fan_state_section_def 
      servo_track_def servo_homing_def Let_def)

lemma inv_level_startup: "inv_level (main_startup hw)"
  by (simp add: inv_level_def main_startup_def stop_fan_eq Let_def)

subsection \<open>Fan PWM output\<close>

lemma stop_fan_disabled: "fan_pwm_disabled (stop_fan s)"
  by (simp add: fan_pwm_disabled_def stop_fan_eq bit_simps const_defs)

lemma inv_pwm_isr: "inv_pwm s \<Longrightarrow> inv_pwm (ISR_SPI_STC b s)"
  using stop_fan_disabled[of s]
  by (auto simp add: inv_pwm_def ISR_SPI_STC_def start_fan_eq Let_def fan_pwm_disabled_def stop_fan_eq)


lemma inv_pwm_toggle: "inv_pwm s \<Longrightarrow> inv_pwm (toggle_button_section p s)"
  using stop_fan_disabled[of "s\<lparr>toggle_button_pressed := 1, user_ready_flag := 0\<rparr>"]
  by (auto simp add: inv_pwm_def toggle_button_section_def Let_def fan_pwm_disabled_def stop_fan_eq)

lemma inv_pwm_fan: "inv_pwm s \<Longrightarrow> inv_pwm (fan_state_section p s)"
  by (auto simp add: inv_pwm_def fan_state_section_def fan_pwm_disabled_def
      speed_button_section_def servo_track_def servo_homing_def Let_def)

lemma inv_pwm_startup: "inv_pwm (main_startup hw)"
  by (simp add: inv_pwm_def main_startup_def Let_def fan_pwm_disabled_def stop_fan_eq bit_simps const_defs)

subsection \<open>Servo range\<close>

lemma c_div_nonneg: "0 \<le> a \<Longrightarrow> 0 < b \<Longrightarrow> c_div a b = a div b"
  by (cases "a = 0") (simp_all add: c_div_def)

lemma angle_ocr_value_eq:
  assumes "10 \<le> b" "b \<le> 170"
  shows "angle_ocr_value b = (uint b - 10) * (610 - 140) div 160 + 140"
proof -
  from assms have "10 \<le> uint b" by (simp add: word_le_def)
  then show ?thesis
    by (simp add: angle_ocr_value_def c_div_nonneg const_defs)
qed

lemma angle_ocr_value_range:
  assumes "10 \<le> b" "b \<le> 170"
  shows "140 \<le> angle_ocr_value b \<and> angle_ocr_value b \<le> 610"
proof -
  from assms have "10 \<le> uint b" "uint b \<le> 170" by (simp_all add: word_le_def)
  then show ?thesis
    unfolding angle_ocr_value_eq[OF assms] by auto
qed

lemma angle_target_range:
  assumes "10 \<le> b" "b \<le> 170"
  shows "140 \<le> (word_of_int (angle_ocr_value b) :: 16 word) \<and>
         (word_of_int (angle_ocr_value b) :: 16 word) \<le> 610"
proof -
  from angle_ocr_value_range[OF assms]
  have "uint (word_of_int (angle_ocr_value b) :: 16 word) = angle_ocr_value b"
    by (simp add: uint_word_of_int)
  with angle_ocr_value_range[OF assms] show ?thesis
    by (simp add: word_le_def)
qed

lemma inv_range_isr: "inv_range s \<Longrightarrow> inv_range (ISR_SPI_STC b s)"
  using angle_target_range[of b]
  by (auto simp add: inv_range_def ISR_SPI_STC_def stop_fan_eq start_fan_eq Let_def)

lemma inv_range_toggle: "inv_range s \<Longrightarrow> inv_range (toggle_button_section p s)"
  by (auto simp add: inv_range_def toggle_button_section_def stop_fan_eq Let_def const_defs)

lemma word16_inc_range: "(c::16 word) < t \<Longrightarrow> lo \<le> c \<Longrightarrow> t \<le> hi \<Longrightarrow> lo \<le> c + 1 \<and> c + 1 \<le> hi"
  by unat_arith

lemma word16_dec_range: "(t::16 word) < c \<Longrightarrow> lo \<le> t \<Longrightarrow> c \<le> hi \<Longrightarrow> lo \<le> c - 1 \<and> c - 1 \<le> hi"
  by unat_arith

lemma inv_range_track: "inv_range s \<Longrightarrow> inv_range (servo_track s)"
  using word16_inc_range[of "servo_current_ocr s" "servo_target_ocr s" 140 610]
        word16_dec_range[of "servo_target_ocr s" "servo_current_ocr s" 140 610]
  by (simp add: inv_range_def servo_track_def Let_def)

lemma inv_range_homing: "inv_range s \<Longrightarrow> inv_range (servo_homing s)"
  using word16_inc_range[of "servo_current_ocr s" 375 140 610]
        word16_dec_range[of 375 "servo_current_ocr s" 140 610]
  by (simp add: inv_range_def servo_homing_def Let_def const_defs)

lemma inv_range_speed_button: "inv_range (speed_button_section p s) = inv_range s"
  by (simp add: inv_range_def speed_button_section_def Let_def)

lemma inv_range_status [simp]: "inv_range (s\<lparr>current_spi_status := x\<rparr>) = inv_range s"
  by (simp add: inv_range_def)

lemma inv_range_fan: "inv_range s \<Longrightarrow> inv_range (fan_state_section p s)"
  by (simp add: fan_state_section_def Let_def inv_range_speed_button inv_range_track
      inv_range_homing)

lemma inv_range_startup: "inv_range (main_startup hw)"
  by (simp add: inv_range_def main_startup_def stop_fan_eq Let_def const_defs)

subsection \<open>Every reachable state satisfies the invariants\<close>

lemma state_inv_startup: "state_inv (main_startup hw)"
  by (simp add: state_inv_def inv_flags_startup inv_level_startup inv_pwm_startup inv_range_startup)

lemma state_inv_toggle: "state_inv s \<Longrightarrow> state_inv (toggle_button_section p s)"
  by (simp add: state_inv_def inv_flags_toggle inv_level_toggle inv_pwm_toggle inv_range_toggle)

lemma state_inv_fan: "state_inv s \<Longrightarrow> state_inv (fan_state_section p s)"
  by (simp add: state_inv_def inv_flags_fan inv_level_fan inv_pwm_fan inv_range_fan)

lemma state_inv_isr: "state_inv s \<Longrightarrow> state_inv (ISR_SPI_STC b s)"
  by (simp add: state_inv_def inv_flags_isr inv_level_isr inv_pwm_isr inv_range_isr)

lemma state_inv_step: "state_inv s \<Longrightarrow> state_inv (step e s)"
  by (cases e) (simp_all add: main_loop_body_def state_inv_toggle state_inv_fan state_inv_isr)

lemma reachable_state_inv: "reachable s \<Longrightarrow> state_inv s"
  by (induction rule: reachable.induct) (simp_all add: state_inv_startup state_inv_step)

lemma reachable_run: "reachable s \<Longrightarrow> reachable (run es s)"
  by (induction es arbitrary: s) (simp_all add: reachable.step)

subsection \<open>The concrete states, evaluated\<close>

lemmas model_defs =
  update_leds_def set_fan_speed_def start_fan_def stop_fan_def c_div_def angle_ocr_value_def
  ISR_SPI_STC_def toggle_button_section_def speed_button_section_def servo_track_def
  servo_homing_def fan_state_section_def main_loop_body_def

lemmas startup_defs = static_init_def init_timer3_fan_pwm_def main_startup_def

lemma startup_state_eq:
  "main_startup hw_zero = \<lparr>motor_running = 0, speed_level = 0, user_ready_flag = 0,
     servo_homing_required = 0, servo_current_ocr = 375, servo_target_ocr = 375,
     current_spi_status = 0, SPDR = 0, OCR1A = 375, OCR3A = 0, ICR3 = 1999, TCCR3A = 2,
     TCCR3B = 24, FAN_PWM_PORT = 0, LED_PORT = 0, toggle_button_pressed = 0,
     speed_button_pressed = 0\<rparr>"
  by (simp add: hw_zero_def startup_defs stop_fan_def update_leds_def const_defs Let_def)

lemma ready_state_eq:
  "ready_state = \<lparr>motor_running = 0, speed_level = 0, user_ready_flag = 1,
     servo_homing_required = 0, servo_current_ocr = 375, servo_target_ocr = 375,
     current_spi_status = 111, SPDR = 0, OCR1A = 375, OCR3A = 0, ICR3 = 1999, TCCR3A = 2,
     TCCR3B = 24, FAN_PWM_PORT = 0, LED_PORT = 0, toggle_button_pressed = 0,
     speed_button_pressed = 0\<rparr>"
  by (simp add: ready_state_def startup_state_eq model_defs const_defs Let_def)

lemma running_state_eq:
  "running_state = \<lparr>motor_running = 1, speed_level = 0, user_ready_flag = 1,
     servo_homing_required = 0, servo_current_ocr = 375, servo_target_ocr = 375,
     current_spi_status = 111, SPDR = 111, OCR1A = 375, OCR3A = 1199, ICR3 = 1999,
     TCCR3A = 130, TCCR3B = 25, FAN_PWM_PORT = 0, LED_PORT = 1, toggle_button_pressed = 0,
     speed_button_pressed = 0\<rparr>"
  by (simp add: running_state_def ready_state_eq model_defs const_defs Let_def)

lemma reachable_ready_state: "reachable ready_state"
  unfolding ready_state_def by (rule reachable_run) (rule reachable.startup)

lemma reachable_running_state: "reachable running_state"
  unfolding running_state_def by (rule reachable_run) (rule reachable_ready_state)

section \<open>The claims\<close>

subsection \<open>Status derivation\<close>

lemma fan_state_section_status:
  "current_spi_status (fan_state_section p s) = derived_status (fan_state_section p s)"
  by (auto simp add: fan_state_section_def derived_status_def Let_def
      speed_button_section_def servo_track_def servo_homing_def)

text \<open>
  After an iteration that no handler interrupts, the stored status code is 222 (RUNNING)
  when \<open>motor_running\<close> is set; otherwise 111 (READY) when \<open>user_ready_flag\<close> is 1 and
  the servo's current position is 375 (CENTER); otherwise 0 (HOMING_OFF). All fields are
  read in the state the iteration leaves behind.
\<close>

theorem status_after_tick:
  "current_spi_status (main_loop_body pind_toggle pind_speed s) =
     (if motor_running (main_loop_body pind_toggle pind_speed s) \<noteq> 0 then 222
      else if user_ready_flag (main_loop_body pind_toggle pind_speed s) = 1 \<and>
              servo_current_ocr (main_loop_body pind_toggle pind_speed s) = 375 then 111
      else 0)"
  using fan_state_section_status[of pind_speed "toggle_button_section pind_toggle s"]
  by (simp add: main_loop_body_def derived_status_def const_defs)

theorem status_after_tick_witness:
  "motor_running (main_loop_body 2 0 (main_startup hw_zero)) = 0 \<and>
   user_ready_flag (main_loop_body 2 0 (main_startup hw_zero)) = 1 \<and>
   servo_current_ocr (main_loop_body 2 0 (main_startup hw_zero)) = 375 \<and>
   current_spi_status (main_loop_body 2 0 (main_startup hw_zero)) = 111"
proof -
  have f: "motor_running (main_loop_body 2 0 (main_startup hw_zero)) = 0"
    "user_ready_flag (main_loop_body 2 0 (main_startup hw_zero)) = 1"
    "servo_current_ocr (main_loop_body 2 0 (main_startup hw_zero)) = 375"
    by (simp_all add: startup_state_eq model_defs const_defs Let_def)
  with status_after_tick[of 2 0 "main_startup hw_zero"] show ?thesis by simp
qed

subsection \<open>The status after an interrupted iteration\<close>

lemma main_loop_body_irq_Nil: "main_loop_body_irq pind_toggle pind_speed [] s = main_loop_body pind_toggle pind_speed s"
  by (simp add: main_loop_body_irq_def main_loop_body_def fan_state_section_irq_def
      fan_state_section_def speed_button_section_irq_def speed_button_section_def)

lemmas irq_defs = speed_button_section_irq_def fan_state_section_irq_def main_loop_body_irq_def

lemma preempted_tick_state:
  "main_loop_body_irq 0 1 [200] running_state =
     \<lparr>motor_running = 0, speed_level = 1, user_ready_flag = 0,
      servo_homing_required = 1, servo_current_ocr = 375, servo_target_ocr = 375,
      current_spi_status = 222, SPDR = 111, OCR1A = 375, OCR3A = 799, ICR3 = 1999,
      TCCR3A = 2, TCCR3B = 24, FAN_PWM_PORT = 0, LED_PORT = 0, toggle_button_pressed = 0,
      speed_button_pressed = 1\<rparr>"
  by (simp add: running_state_eq irq_defs model_defs const_defs Let_def)


subsection \<open>The reply byte\<close>

lemma isr_status_unchanged: "current_spi_status (ISR_SPI_STC b s) = current_spi_status s"
  by (simp add: ISR_SPI_STC_def stop_fan_eq start_fan_eq Let_def)

lemma isr_reply: "SPDR (ISR_SPI_STC b s) = current_spi_status s"
  by (simp add: ISR_SPI_STC_def stop_fan_eq start_fan_eq Let_def)

text \<open>
  C2, as stated, says that the reply queued by the handler already accounts for the command
  just processed. It does not: the handler copies the stored status code, which only the
  main loop recomputes. In the state reached by pressing and releasing the on/off button,
  a START byte starts the fan and queues 111; after one more loop iteration, a RESET byte
  stops the fan and queues 222.
\<close>

theorem reply_counterexample:
  "reachable ready_state \<and>
   SPDR (ISR_SPI_STC 255 ready_state) = 111 \<and>
   motor_running (ISR_SPI_STC 255 ready_state) = 1 \<and>
   derived_status (ISR_SPI_STC 255 ready_state) = 222 \<and>
   reachable (main_loop_body 0 0 running_state) \<and>
   SPDR (ISR_SPI_STC 200 (main_loop_body 0 0 running_state)) = 222 \<and>
   motor_running (ISR_SPI_STC 200 (main_loop_body 0 0 running_state)) = 0 \<and>
   derived_status (ISR_SPI_STC 200 (main_loop_body 0 0 running_state)) = 0"
proof -
  have "reachable (step (Tick 0 0) running_state)"
    by (rule reachable.step) (rule reachable_running_state)
  then have r: "reachable (main_loop_body 0 0 running_state)" by simp
  have v1: "SPDR (ISR_SPI_STC 255 ready_state) = 111"
    "motor_running (ISR_SPI_STC 255 ready_state) = 1"
    "derived_status (ISR_SPI_STC 255 ready_state) = 222"
    by (simp_all add: ready_state_eq derived_status_def model_defs const_defs Let_def)
  have v2: "SPDR (ISR_SPI_STC 200 (main_loop_body 0 0 running_state)) = 222"
    "motor_running (ISR_SPI_STC 200 (main_loop_body 0 0 running_state)) = 0"
    "derived_status (ISR_SPI_STC 200 (main_loop_body 0 0 running_state)) = 0"
    by (simp_all add: running_state_eq derived_status_def model_defs const_defs Let_def)
  from reachable_ready_state r v1 v2 show ?thesis by (intro conjI)
qed

text \<open>
  C2, amended. After processing a byte the handler queues the status code stored by the
  most recent loop iteration, and it never changes that code itself. The effects of the
  command show in the reply queued by a transfer that follows the next loop iteration:
  that reply is the status derived from the state the iteration left behind.
\<close>

theorem reply_is_stored_status:
  "SPDR (ISR_SPI_STC b s) = current_spi_status s \<and>
   current_spi_status (ISR_SPI_STC b s) = current_spi_status s \<and>
   SPDR (ISR_SPI_STC b' (main_loop_body pind_toggle pind_speed (ISR_SPI_STC b s))) =
     derived_status (main_loop_body pind_toggle pind_speed (ISR_SPI_STC b s))"
  using fan_state_section_status[of pind_speed "toggle_button_section pind_toggle (ISR_SPI_STC b s)"]
  by (simp add: isr_reply isr_status_unchanged main_loop_body_def)

theorem reply_is_stored_status_witness:
  "SPDR (ISR_SPI_STC 255 ready_state) = 111 \<and>
   current_spi_status (ISR_SPI_STC 255 ready_state) = 111 \<and>
   SPDR (ISR_SPI_STC 0 (main_loop_body 0 0 (ISR_SPI_STC 255 ready_state))) = 222"
proof -
  have "current_spi_status ready_state = 111" by (simp add: ready_state_eq)
  moreover have "derived_status (main_loop_body 0 0 (ISR_SPI_STC 255 ready_state)) = 222"
    by (simp add: ready_state_eq derived_status_def model_defs const_defs Let_def)
  ultimately show ?thesis
    using reply_is_stored_status[of 255 ready_state 0 0 0] by simp
qed

subsection \<open>Command bytes\<close>

text \<open>
  C3. An ANGLE byte \<open>b\<close> with \<open>10 \<le> b \<le> 170\<close> sets the target to
  \<open>(b - 10) * (610 - 140) div 160 + 140\<close> exactly when \<open>user_ready_flag\<close> and
  \<open>motor_running\<close> are both 1 when the byte arrives; otherwise the target and every other
  field of the controller keeps its value. In both cases the reply register is reloaded with
  the stored status, as after every byte. The operands are not negative, so \<open>div\<close> is
  the truncating division of C, and the value fits the 16-bit target. Byte 90 gives 375.
\<close>

theorem angle_command:
  assumes "10 \<le> b" and "b \<le> 170"
  shows "ISR_SPI_STC b s =
           (if user_ready_flag s = 1 \<and> motor_running s = 1
            then s\<lparr>servo_target_ocr := word_of_int ((uint b - 10) * (610 - 140) div 160 + 140),
                   SPDR := current_spi_status s\<rparr>
            else s\<lparr>SPDR := current_spi_status s\<rparr>) \<and>
         uint (word_of_int ((uint b - 10) * (610 - 140) div 160 + 140) :: 16 word) =
           (uint b - 10) * (610 - 140) div 160 + 140 \<and>
         angle_ocr_value 90 = 375"
proof -
  have ne: "b \<noteq> 200"
    using assms(2) by auto
  have isr: "ISR_SPI_STC b s =
           (if user_ready_flag s = 1 \<and> motor_running s = 1
            then s\<lparr>servo_target_ocr := word_of_int (angle_ocr_value b),
                   SPDR := current_spi_status s\<rparr>
            else s\<lparr>SPDR := current_spi_status s\<rparr>)"
    using assms ne by (simp add: ISR_SPI_STC_def Let_def)
  have rng: "140 \<le> angle_ocr_value b \<and> angle_ocr_value b \<le> 610"
    by (rule angle_ocr_value_range[OF assms])
  have val: "uint (word_of_int (angle_ocr_value b) :: 16 word) = angle_ocr_value b"
    using rng by (simp add: uint_word_of_int)
  have c90: "angle_ocr_value 90 = 375"
    by (simp add: angle_ocr_value_def c_div_def const_defs)
  from isr val c90 show ?thesis
    unfolding angle_ocr_value_eq[OF assms] by simp
qed

theorem angle_command_witness:
  "(10 :: 8 word) \<le> 90 \<and> (90 :: 8 word) \<le> 170 \<and>
   user_ready_flag running_state = 1 \<and> motor_running running_state = 1 \<and>
   servo_target_ocr (ISR_SPI_STC 90 running_state) = 375 \<and>
   servo_target_ocr (ISR_SPI_STC 170 running_state) = 610 \<and>
   user_ready_flag ready_state = 1 \<and> motor_running ready_state = 0 \<and>
   ISR_SPI_STC 170 ready_state = ready_state\<lparr>SPDR := 111\<rparr>"
proof -
  have h: "(10 :: 8 word) \<le> 90" "(90 :: 8 word) \<le> 170" "(10 :: 8 word) \<le> 170"
    "(170 :: 8 word) \<le> 170" by simp_all
  have f: "user_ready_flag running_state = 1" "motor_running running_state = 1"
    by (simp_all add: running_state_eq)
  have g: "user_ready_flag ready_state = 1" "motor_running ready_state = 0"
    "current_spi_status ready_state = 111"
    by (simp_all add: ready_state_eq)
  from angle_command[OF h(1) h(2), of running_state] f
  have a: "servo_target_ocr (ISR_SPI_STC 90 running_state) = 375" by simp
  from angle_command[OF h(3) h(4), of running_state] f
  have b: "servo_target_ocr (ISR_SPI_STC 170 running_state) = 610" by simp
  from angle_command[OF h(3) h(4), of ready_state] g
  have c: "ISR_SPI_STC 170 ready_state = ready_state\<lparr>SPDR := 111\<rparr>" by simp
  from h(1) h(2) f a b g(1) g(2) c show ?thesis by (intro conjI)
qed








text \<open>
  C5. Byte 255 (START) starts the fan exactly when the stored status is 111 (READY): then
  \<open>motor_running\<close> becomes 1, \<open>speed_level\<close> becomes 0, the duty register gets the
  level-0 value 1199 and the PWM output is enabled (compare output connected, timer
  clocked), with the level-0 LED lit. With any other stored status the byte changes
  nothing but the reply register, which is reloaded with the stored status as always.
\<close>

theorem start_command:
  "ISR_SPI_STC 255 s =
     (if current_spi_status s = 111
      then s\<lparr>motor_running := 1, speed_level := 0,
             TCCR3A := TCCR3A s OR push_bit COM3A1 1,
             OCR3A := 1199,
             LED_PORT := (LED_PORT s AND
               NOT (push_bit LED_LOW_PIN 1 OR push_bit LED_MEDIUM_PIN 1 OR push_bit LED_HIGH_PIN 1))
               OR push_bit LED_LOW_PIN 1,
             TCCR3B := TCCR3B s OR push_bit CS30 1,
             SPDR := 111\<rparr>
      else s\<lparr>SPDR := current_spi_status s\<rparr>) \<and>
   (if current_spi_status s = 111
    then fan_pwm_enabled (ISR_SPI_STC 255 s) \<and> OCR3A (ISR_SPI_STC 255 s) = DUTY_HIGH
    else motor_running (ISR_SPI_STC 255 s) = motor_running s) \<and>
   DUTY_HIGH = 1199"
  by (simp add: ISR_SPI_STC_def start_fan_eq fan_pwm_enabled_def Let_def bit_simps const_defs)

theorem start_command_witness:
  "current_spi_status ready_state = 111 \<and>
   motor_running ready_state = 0 \<and>
   motor_running (ISR_SPI_STC 255 ready_state) = 1 \<and>
   speed_level (ISR_SPI_STC 255 ready_state) = 0 \<and>
   OCR3A (ISR_SPI_STC 255 ready_state) = 1199 \<and>
   fan_pwm_enabled (ISR_SPI_STC 255 ready_state) \<and>
   current_spi_status (main_startup hw_zero) = 0 \<and>
   ISR_SPI_STC 255 (main_startup hw_zero) = main_startup hw_zero"
proof -
  have h: "current_spi_status ready_state = 111" "motor_running ready_state = 0"
    by (simp_all add: ready_state_eq)
  have k: "current_spi_status (main_startup hw_zero) = 0" "SPDR (main_startup hw_zero) = 0"
    by (simp_all add: startup_state_eq)
  from start_command[of ready_state, THEN conjunct1] h
  have a: "motor_running (ISR_SPI_STC 255 ready_state) = 1"
    "speed_level (ISR_SPI_STC 255 ready_state) = 0"
    "OCR3A (ISR_SPI_STC 255 ready_state) = 1199"
    by simp_all
  from start_command[of ready_state, THEN conjunct2, THEN conjunct1] h
  have a': "fan_pwm_enabled (ISR_SPI_STC 255 ready_state)"
    by simp
  from start_command[of "main_startup hw_zero", THEN conjunct1] k
  have b: "ISR_SPI_STC 255 (main_startup hw_zero) = main_startup hw_zero"
    by simp
  from h a a' k(1) b show ?thesis by (intro conjI)
qed

subsection \<open>Speed button\<close>

lemma level_cases: "(l :: 8 word) \<le> 2 \<Longrightarrow> l = 0 \<or> l = 1 \<or> l = 2"
  by unat_arith

lemma duty_values: "DUTY_HIGH = 1199 \<and> DUTY_MEDIUM = 799 \<and> DUTY_LOW = 399"
  by (simp add: const_defs)

lemma speed_press_section:
  assumes "speed_level s \<le> 2" "pind AND push_bit SWITCH_SPEED_PIN 1 \<noteq> 0"
    "speed_button_pressed s = 0"
  shows "unat (speed_level (speed_button_section pind s)) = (unat (speed_level s) + 1) mod 3"
    "speed_level (speed_button_section pind s) \<le> 2"
    "OCR3A (speed_button_section pind s) =
       (if speed_level (speed_button_section pind s) = 0 then DUTY_HIGH
        else if speed_level (speed_button_section pind s) = 1 then DUTY_MEDIUM
        else DUTY_LOW)"
    "speed_button_pressed (speed_button_section pind s) = 1"
  using level_cases[OF assms(1)] assms(2,3)
  by (auto simp add: speed_button_section_def set_fan_speed_def update_leds_def Let_def)

lemma fan_state_running_fields:
  assumes "motor_running s \<noteq> 0"
  shows "speed_level (fan_state_section pind s) = speed_level (speed_button_section pind s)"
    "OCR3A (fan_state_section pind s) = OCR3A (speed_button_section pind s)"
    "speed_button_pressed (fan_state_section pind s) = speed_button_pressed (speed_button_section pind s)"
    "motor_running (fan_state_section pind s) = motor_running s"
  using assms
  by (simp_all add: fan_state_section_def servo_track_def Let_def speed_button_section_def)


lemma release_tick_running:
  assumes "motor_running s \<noteq> 0"
  shows "speed_level (main_loop_body 0 0 s) = speed_level s"
    "motor_running (main_loop_body 0 0 s) = motor_running s"
    "speed_button_pressed (main_loop_body 0 0 s) = 0"
  using assms
  by (simp_all add: main_loop_body_def toggle_button_section_def fan_state_section_def
      speed_button_section_def servo_track_def Let_def)

lemma press_tick_running:
  assumes "motor_running s \<noteq> 0" "speed_level s \<le> 2" "speed_button_pressed s = 0"
  shows "unat (speed_level (main_loop_body 0 1 s)) = (unat (speed_level s) + 1) mod 3"
    "speed_level (main_loop_body 0 1 s) \<le> 2"
    "motor_running (main_loop_body 0 1 s) = motor_running s"
proof -
  let ?t = "toggle_button_section 0 s"
  have t: "motor_running ?t = motor_running s" "speed_level ?t = speed_level s"
    "speed_button_pressed ?t = 0"
    using assms(3) by (simp_all add: toggle_button_section_def)
  have p: "(1 :: 8 word) AND push_bit SWITCH_SPEED_PIN 1 \<noteq> 0"
    by (simp add: const_defs)
  have r: "motor_running ?t \<noteq> 0" "speed_level ?t \<le> 2"
    using assms t by simp_all
  show "unat (speed_level (main_loop_body 0 1 s)) = (unat (speed_level s) + 1) mod 3"
    using speed_press_section(1)[OF r(2) p t(3)] fan_state_running_fields(1)[OF r(1), of 1] t(2)
    by (simp add: main_loop_body_def)
  show "speed_level (main_loop_body 0 1 s) \<le> 2"
    using speed_press_section(2)[OF r(2) p t(3)] fan_state_running_fields(1)[OF r(1), of 1]
    by (simp add: main_loop_body_def)
  show "motor_running (main_loop_body 0 1 s) = motor_running s"
    using fan_state_running_fields(4)[OF r(1), of 1] t(1)
    by (simp add: main_loop_body_def)
qed

lemma speed_cycles:
  "motor_running s \<noteq> 0 \<Longrightarrow> speed_level s \<le> 2 \<Longrightarrow>
   unat (speed_level (run (concat (replicate n [Tick 0 0, Tick 0 1])) s)) =
     (unat (speed_level s) + n) mod 3"
proof (induction n arbitrary: s)
  case 0
  then have "unat (speed_level s) \<le> 2" by (simp add: word_le_nat_alt)
  then show ?case by simp
next
  case (Suc n)
  let ?r = "main_loop_body 0 0 s"
  let ?p = "main_loop_body 0 1 ?r"
  have r: "motor_running ?r \<noteq> 0" "speed_level ?r \<le> 2" "speed_button_pressed ?r = 0"
    using Suc.prems release_tick_running[OF Suc.prems(1)] by simp_all
  have p: "motor_running ?p \<noteq> 0" "speed_level ?p \<le> 2"
    "unat (speed_level ?p) = (unat (speed_level s) + 1) mod 3"
    using press_tick_running[OF r] r release_tick_running(1)[OF Suc.prems(1)] by simp_all
  have "unat (speed_level (run (concat (replicate n [Tick 0 0, Tick 0 1])) ?p)) =
      (unat (speed_level ?p) + n) mod 3"
    by (rule Suc.IH[OF p(1) p(2)])
  then show ?case
    by (simp add: p(3) mod_simps)
qed

text \<open>
  C8. While the fan runs, a debounced press of the speed button (PD0 high, latch clear)
  replaces the level by \<open>(level + 1) mod 3\<close> and loads the duty register from the table:
  level 0 gives 1199, level 1 gives 799, level 2 gives 399, which are 60, 40 and 20 percent
  of the period 1999 with the fraction dropped. Hence \<open>n\<close> presses, each after a release,
  lead from level \<open>l\<close> to level \<open>(l + n) mod 3\<close>: the levels are visited in the order
  0, 1, 2, 0, 1, 2 and so on. The level is assumed to be one of 0, 1, 2, as it is in every
  reachable state and between the two parts of an iteration.
\<close>

theorem speed_button_cycles:
  assumes "motor_running s \<noteq> 0" and "speed_level s \<le> 2"
  shows "(pind AND push_bit SWITCH_SPEED_PIN 1 \<noteq> 0 \<and> speed_button_pressed s = 0 \<longrightarrow>
            unat (speed_level (fan_state_section pind s)) = (unat (speed_level s) + 1) mod 3 \<and>
            OCR3A (fan_state_section pind s) =
              (if speed_level (fan_state_section pind s) = 0 then 1199
               else if speed_level (fan_state_section pind s) = 1 then 799
               else 399)) \<and>
         unat (speed_level (run (concat (replicate n [Tick 0 0, Tick 0 1])) s)) =
           (unat (speed_level s) + n) mod 3 \<and>
         unat DUTY_HIGH = ICR_8KHZ * 60 div 100 \<and>
         unat DUTY_MEDIUM = ICR_8KHZ * 40 div 100 \<and>
         unat DUTY_LOW = ICR_8KHZ * 20 div 100 \<and> ICR_8KHZ = 1999"
proof -
  have a: "unat (speed_level (fan_state_section pind s)) = (unat (speed_level s) + 1) mod 3 \<and>
      OCR3A (fan_state_section pind s) =
              (if speed_level (fan_state_section pind s) = 0 then 1199
               else if speed_level (fan_state_section pind s) = 1 then 799
               else 399)"
    if "pind AND push_bit SWITCH_SPEED_PIN 1 \<noteq> 0" "speed_button_pressed s = 0"
    using speed_press_section(1,3)[OF assms(2) that] fan_state_running_fields(1,2)[OF assms(1), of pind]
      duty_values
    by simp
  have d: "unat DUTY_HIGH = ICR_8KHZ * 60 div 100" "unat DUTY_MEDIUM = ICR_8KHZ * 40 div 100"
    "unat DUTY_LOW = ICR_8KHZ * 20 div 100" "ICR_8KHZ = 1999"
    by (simp_all add: const_defs)
  from a speed_cycles[OF assms, of n] d show ?thesis by blast
qed

theorem speed_button_cycles_witness:
  "motor_running running_state \<noteq> 0 \<and> speed_level running_state \<le> 2 \<and>
   (1 :: 8 word) AND push_bit SWITCH_SPEED_PIN 1 \<noteq> 0 \<and>
   speed_button_pressed running_state = 0 \<and>
   speed_level running_state = 0 \<and>
   unat (speed_level (fan_state_section 1 running_state)) = 1 \<and>
   OCR3A (fan_state_section 1 running_state) = 799 \<and>
   unat (speed_level (run (concat (replicate 5 [Tick 0 0, Tick 0 1])) running_state)) = 2"
proof -
  have h: "motor_running running_state \<noteq> 0" "speed_level running_state \<le> 2"
    "(1 :: 8 word) AND push_bit SWITCH_SPEED_PIN 1 \<noteq> 0"
    "speed_button_pressed running_state = 0" "speed_level running_state = 0"
    by (simp_all add: running_state_eq const_defs)
  note t = speed_button_cycles[OF h(1) h(2), of 1 5]
  from t h(3,4,5) have a: "unat (speed_level (fan_state_section 1 running_state)) = 1"
    by simp
  then have "speed_level (fan_state_section 1 running_state) = 1"
    by (simp add: word_unat_eq_iff)
  with t h(3,4) have b: "OCR3A (fan_state_section 1 running_state) = 799"
    by simp
  from t h(5)
  have c: "unat (speed_level (run (concat (replicate 5 [Tick 0 0, Tick 0 1])) running_state)) = 2"
    by simp
  from h a b c show ?thesis by (intro conjI)
qed

subsection \<open>Servo positions\<close>

lemma word16_inc_uint: "(c :: 16 word) < t \<Longrightarrow> uint (c + 1) = uint c + 1"
  by uint_arith

lemma word16_dec_uint: "(t :: 16 word) < c \<Longrightarrow> uint (c - 1) = uint c - 1"
  by uint_arith

lemma servo_track_current:
  "servo_current_ocr (servo_track s) =
     (if servo_current_ocr s < servo_target_ocr s then servo_current_ocr s + 1
      else if servo_target_ocr s < servo_current_ocr s then servo_current_ocr s - 1
      else servo_current_ocr s)"
  by (simp add: servo_track_def Let_def)

lemma servo_homing_current:
  "servo_current_ocr (servo_homing s) =
     (if servo_homing_required s \<noteq> 0 \<or> user_ready_flag s = 1 then
        (if servo_current_ocr s < 375 then servo_current_ocr s + 1
         else if 375 < servo_current_ocr s then servo_current_ocr s - 1
         else servo_current_ocr s)
      else servo_current_ocr s)"
  by (simp add: servo_homing_def Let_def const_defs)



lemma fan_state_section_current:
  "servo_current_ocr (fan_state_section p s) =
     (if motor_running s \<noteq> 0 then servo_current_ocr (servo_track (speed_button_section p s))
      else servo_current_ocr (servo_homing s))"
  by (simp add: fan_state_section_def Let_def)

lemma speed_button_section_servo:
  "servo_current_ocr (speed_button_section p s) = servo_current_ocr s"
  "servo_target_ocr (speed_button_section p s) = servo_target_ocr s"
  by (simp_all add: speed_button_section_def Let_def)







subsection \<open>Speed level of a stopped fan\<close>

lemma fan_state_section_stopped_level:
  "motor_running s = 0 \<Longrightarrow> speed_level (fan_state_section p s) = speed_level s"
  by (simp add: fan_state_section_def servo_homing_def Let_def)

text \<open>
  In every state reached by whole steps a stopped fan has speed level 0. Starting the fan
  and stopping it both set the level to 0, and an uninterrupted iteration leaves the
  level of a stopped fan alone, whatever the speed button does; so whenever a command byte
  starts a stopped fan, the fan starts at level 0.
\<close>

theorem stopped_level_zero:
  assumes "reachable s"
  shows "(motor_running s = 0 \<longrightarrow> speed_level s = 0) \<and>
         speed_level (start_fan s) = 0 \<and> motor_running (start_fan s) = 1 \<and>
         speed_level (stop_fan s) = 0 \<and> motor_running (stop_fan s) = 0 \<and>
         (motor_running s = 0 \<longrightarrow> speed_level (fan_state_section pind s) = 0) \<and>
         (motor_running s = 0 \<and> motor_running (ISR_SPI_STC b s) \<noteq> 0 \<longrightarrow>
            speed_level (ISR_SPI_STC b s) = 0)"
proof -
  from assms have i: "inv_level s"
    using reachable_state_inv[of s] by (simp add: state_inv_def)
  have a: "motor_running s = 0 \<longrightarrow> speed_level s = 0"
    using i by (simp add: inv_level_def)
  have b: "speed_level (ISR_SPI_STC b s) = 0" if "motor_running s = 0"
    using a that by (simp add: ISR_SPI_STC_def start_fan_eq stop_fan_eq Let_def)
  from a b show ?thesis
    by (simp add: start_fan_eq stop_fan_eq fan_state_section_stopped_level)
qed

theorem stopped_level_zero_witness:
  "reachable (ISR_SPI_STC 200 (step (Tick 0 1) running_state)) \<and>
   speed_level (step (Tick 0 1) running_state) = 1 \<and>
   motor_running (ISR_SPI_STC 200 (step (Tick 0 1) running_state)) = 0 \<and>
   speed_level (ISR_SPI_STC 200 (step (Tick 0 1) running_state)) = 0 \<and>
   speed_level (fan_state_section 1 (ISR_SPI_STC 200 (step (Tick 0 1) running_state))) = 0"
proof -
  let ?s = "ISR_SPI_STC 200 (step (Tick 0 1) running_state)"
  have "reachable (step (Transfer 200) (step (Tick 0 1) running_state))"
    by (intro reachable.step reachable_running_state)
  then have r: "reachable ?s" by simp
  have v: "speed_level (step (Tick 0 1) running_state) = 1" "motor_running ?s = 0"
    by (simp_all add: running_state_eq model_defs const_defs Let_def)
  from stopped_level_zero[OF r, of 1 0] v(2)
  have l: "speed_level ?s = 0" "speed_level (fan_state_section 1 ?s) = 0"
    by simp_all
  from r v l show ?thesis by (intro conjI)
qed

subsection \<open>The speed level after an interrupted iteration\<close>

text \<open>
  C10. In every state the program reaches, a stopped fan should have speed level 0: the
  level is zeroed when the fan stops and incremented only in the running branch. The code
  breaks this when a RESET byte completes during the debounce wait of the speed button:
  the handler stops the fan and zeroes the level, and the loop, already past its test of
  \<open>motor_running\<close>, increments it. From the running state at level 0 the iteration ends
  with the fan stopped, level 1 and the level-1 duty 799 loaded; no sequence of whole
  steps reaches that state.
\<close>

theorem preempted_press_level:
  "reachable running_state \<and>
   motor_running running_state = 1 \<and> speed_level running_state = 0 \<and>
   motor_running (main_loop_body_irq 0 1 [200] running_state) = 0 \<and>
   speed_level (main_loop_body_irq 0 1 [200] running_state) = 1 \<and>
   OCR3A (main_loop_body_irq 0 1 [200] running_state) = 799 \<and>
   \<not> reachable (main_loop_body_irq 0 1 [200] running_state)"
proof -
  have u: "motor_running running_state = 1" "speed_level running_state = 0"
    by (simp_all add: running_state_eq)
  have v: "motor_running (main_loop_body_irq 0 1 [200] running_state) = 0"
    "speed_level (main_loop_body_irq 0 1 [200] running_state) = 1"
    "OCR3A (main_loop_body_irq 0 1 [200] running_state) = 799"
    by (simp_all add: preempted_tick_state)
  have "\<not> inv_level (main_loop_body_irq 0 1 [200] running_state)"
    using v(1,2) by (simp add: inv_level_def)
  then have n: "\<not> reachable (main_loop_body_irq 0 1 [200] running_state)"
    using reachable_state_inv[of "main_loop_body_irq 0 1 [200] running_state"]
    by (auto simp add: state_inv_def)
  from reachable_running_state u v n show ?thesis by (intro conjI)
qed

subsection \<open>Convergence of the servo\<close>

lemma servo_distance_zero: "servo_distance a b = 0 \<longleftrightarrow> a = b"
  by (simp add: servo_distance_def word_uint_eq_iff)

lemma distance_step:
  "servo_distance (if c < t then c + 1 else if t < c then c - 1 else c) t = servo_distance c t - 1"
  using word16_inc_uint[of c t] word16_dec_uint[of t c]
  by (auto simp add: servo_distance_def word_less_def)

lemma track_distance:
  "servo_distance (servo_current_ocr (servo_track s)) (servo_target_ocr s) =
     servo_distance (servo_current_ocr s) (servo_target_ocr s) - 1"
  using distance_step[of "servo_current_ocr s" "servo_target_ocr s"]
  by (simp add: servo_track_current)

lemma homing_distance:
  assumes "servo_homing_required s \<noteq> 0 \<or> user_ready_flag s = 1 \<or> servo_current_ocr s = 375"
  shows "servo_distance (servo_current_ocr (servo_homing s)) 375 =
     servo_distance (servo_current_ocr s) 375 - 1"
  using distance_step[of "servo_current_ocr s" 375] assms servo_distance_zero[of 375 375]
  by (auto simp add: servo_homing_current)


lemma fan_state_section_fields:
  "motor_running (fan_state_section p s) = motor_running s"
  "user_ready_flag (fan_state_section p s) = user_ready_flag s"
  "servo_target_ocr (fan_state_section p s) = servo_target_ocr s"
  by (simp_all add: fan_state_section_def speed_button_section_def servo_track_def
      servo_homing_def Let_def)

lemma quiet_toggle_section:
  "p AND push_bit SWITCH_TOGGLE_PIN 1 = 0 \<Longrightarrow>
   toggle_button_section p s = s\<lparr>toggle_button_pressed := 0\<rparr>"
  by (simp add: toggle_button_section_def)

lemma quiet_tick_running:
  assumes "quiet_tick e" "motor_running s \<noteq> 0"
  shows "motor_running (step e s) = motor_running s"
    "servo_target_ocr (step e s) = servo_target_ocr s"
    "servo_distance (servo_current_ocr (step e s)) (servo_target_ocr s) =
       servo_distance (servo_current_ocr s) (servo_target_ocr s) - 1"
proof -
  from assms(1) obtain p1 p2 where e: "e = Tick p1 p2" "p1 AND push_bit SWITCH_TOGGLE_PIN 1 = 0"
    by (cases e) simp_all
  let ?t = "s\<lparr>toggle_button_pressed := 0\<rparr>"
  have st: "step e s = fan_state_section p2 ?t"
    using e by (simp add: main_loop_body_def quiet_toggle_section)
  show "motor_running (step e s) = motor_running s"
    "servo_target_ocr (step e s) = servo_target_ocr s"
    by (simp_all add: st fan_state_section_fields)
  show "servo_distance (servo_current_ocr (step e s)) (servo_target_ocr s) =
       servo_distance (servo_current_ocr s) (servo_target_ocr s) - 1"
    using track_distance[of "speed_button_section p2 ?t"] assms(2)
    by (simp add: st fan_state_section_current speed_button_section_servo)
qed

lemma quiet_tick_stopped:
  assumes "quiet_tick e" "motor_running s = 0"
    "servo_homing_required s \<noteq> 0 \<or> user_ready_flag s = 1 \<or> servo_current_ocr s = 375"
  shows "motor_running (step e s) = 0"
    "user_ready_flag (step e s) = user_ready_flag s"
    "servo_homing_required (step e s) \<noteq> 0 \<or> user_ready_flag (step e s) = 1 \<or>
       servo_current_ocr (step e s) = 375"
    "servo_distance (servo_current_ocr (step e s)) 375 =
       servo_distance (servo_current_ocr s) 375 - 1"
proof -
  from assms(1) obtain p1 p2 where e: "e = Tick p1 p2" "p1 AND push_bit SWITCH_TOGGLE_PIN 1 = 0"
    by (cases e) simp_all
  let ?t = "s\<lparr>toggle_button_pressed := 0\<rparr>"
  have st: "step e s = fan_state_section p2 ?t"
    using e by (simp add: main_loop_body_def quiet_toggle_section)
  show "motor_running (step e s) = 0" "user_ready_flag (step e s) = user_ready_flag s"
    using assms(2) by (simp_all add: st fan_state_section_fields)
  show "servo_distance (servo_current_ocr (step e s)) 375 =
       servo_distance (servo_current_ocr s) 375 - 1"
    using homing_distance[of ?t] assms(2,3)
    by (simp add: st fan_state_section_current)
  show "servo_homing_required (step e s) \<noteq> 0 \<or> user_ready_flag (step e s) = 1 \<or>
       servo_current_ocr (step e s) = 375"
    using assms(2,3)
    by (auto simp add: st fan_state_section_def servo_homing_def Let_def const_defs)
qed

lemma quiet_tick_parked:
  assumes "quiet_tick e" "motor_running s = 0" "servo_homing_required s = 0"
    "user_ready_flag s \<noteq> 1"
  shows "motor_running (step e s) = 0" "servo_homing_required (step e s) = 0"
    "user_ready_flag (step e s) = user_ready_flag s"
    "servo_current_ocr (step e s) = servo_current_ocr s"
proof -
  from assms(1) obtain p1 p2 where e: "e = Tick p1 p2" "p1 AND push_bit SWITCH_TOGGLE_PIN 1 = 0"
    by (cases e) simp_all
  have st: "step e s = fan_state_section p2 (s\<lparr>toggle_button_pressed := 0\<rparr>)"
    using e by (simp add: main_loop_body_def quiet_toggle_section)
  show "motor_running (step e s) = 0" "servo_homing_required (step e s) = 0"
    "user_ready_flag (step e s) = user_ready_flag s"
    "servo_current_ocr (step e s) = servo_current_ocr s"
    using assms(2-4) by (simp_all add: st fan_state_section_def servo_homing_def Let_def)
qed

lemma running_converge:
  "list_all quiet_tick es \<Longrightarrow> motor_running s \<noteq> 0 \<Longrightarrow>
   motor_running (run es s) = motor_running s \<and>
   servo_target_ocr (run es s) = servo_target_ocr s \<and>
   servo_distance (servo_current_ocr (run es s)) (servo_target_ocr s) =
     servo_distance (servo_current_ocr s) (servo_target_ocr s) - length es"
proof (induction es arbitrary: s)
  case Nil
  then show ?case by simp
next
  case (Cons e es)
  from Cons.prems have q: "quiet_tick e" "list_all quiet_tick es" by simp_all
  note t = quiet_tick_running[OF q(1) Cons.prems(2)]
  from Cons.prems(2) t(1) have r: "motor_running (step e s) \<noteq> 0" by simp
  from Cons.IH[OF q(2) r] t show ?case by simp
qed

lemma homing_converge:
  "list_all quiet_tick es \<Longrightarrow> motor_running s = 0 \<Longrightarrow>
   servo_homing_required s \<noteq> 0 \<or> user_ready_flag s = 1 \<or> servo_current_ocr s = 375 \<Longrightarrow>
   motor_running (run es s) = 0 \<and>
   user_ready_flag (run es s) = user_ready_flag s \<and>
   servo_distance (servo_current_ocr (run es s)) 375 =
     servo_distance (servo_current_ocr s) 375 - length es"
proof (induction es arbitrary: s)
  case Nil
  then show ?case by simp
next
  case (Cons e es)
  from Cons.prems have q: "quiet_tick e" "list_all quiet_tick es" by simp_all
  note t = quiet_tick_stopped[OF q(1) Cons.prems(2,3)]
  from Cons.IH[OF q(2) t(1) t(3)] t(2,4) show ?case by simp
qed

lemma parked_stays:
  "list_all quiet_tick es \<Longrightarrow> motor_running s = 0 \<Longrightarrow> servo_homing_required s = 0 \<Longrightarrow>
   user_ready_flag s \<noteq> 1 \<Longrightarrow> servo_current_ocr (run es s) = servo_current_ocr s"
proof (induction es arbitrary: s)
  case Nil
  then show ?case by simp
next
  case (Cons e es)
  from Cons.prems have q: "quiet_tick e" "list_all quiet_tick es" by simp_all
  note t = quiet_tick_parked[OF q(1) Cons.prems(2-4)]
  from Cons.prems(4) t(3) have u: "user_ready_flag (step e s) \<noteq> 1" by simp
  from Cons.IH[OF q(2) t(1) t(2) u] t(4) show ?case by simp
qed

lemma status_after_quiet_ticks:
  "list_all quiet_tick es \<Longrightarrow> es \<noteq> [] \<Longrightarrow>
   current_spi_status (run es s) = derived_status (run es s)"
proof (induction es arbitrary: s)
  case Nil
  then show ?case by simp
next
  case (Cons e es)
  from Cons.prems have q: "quiet_tick e" "list_all quiet_tick es" by simp_all
  show ?case
  proof (cases "es = []")
    case True
    from q(1) obtain p1 p2 where "e = Tick p1 p2" by (cases e) simp_all
    with True show ?thesis
      using fan_state_section_status[of p2 "toggle_button_section p1 s"]
      by (simp add: main_loop_body_def)
  next
    case False
    from Cons.IH[OF q(2) False] show ?thesis by simp
  qed
qed

lemma homing_status:
  assumes "list_all quiet_tick es" "es \<noteq> []" "motor_running s = 0" "user_ready_flag s = 1"
  shows "current_spi_status (run es s) =
     (if servo_distance (servo_current_ocr s) 375 \<le> length es then 111 else 0)"
proof -
  from homing_converge[OF assms(1,3)] assms(4)
  have h: "motor_running (run es s) = 0" "user_ready_flag (run es s) = 1"
    "servo_distance (servo_current_ocr (run es s)) 375 =
       servo_distance (servo_current_ocr s) 375 - length es"
    by simp_all
  have "servo_current_ocr (run es s) = 375 \<longleftrightarrow> servo_distance (servo_current_ocr s) 375 \<le> length es"
    using h(3) servo_distance_zero[of "servo_current_ocr (run es s)" 375] by simp
  then show ?thesis
    using status_after_quiet_ticks[OF assms(1,2), of s] h(1,2)
    by (simp add: derived_status_def const_defs)
qed


lemma toggle_on_from_idle:
  assumes "motor_running s = 0" "user_ready_flag s \<noteq> 1" "toggle_button_pressed s = 0"
    "servo_current_ocr s = 140" "pt AND push_bit SWITCH_TOGGLE_PIN 1 \<noteq> 0"
  shows "motor_running (step (Tick pt ps) s) = 0"
    "user_ready_flag (step (Tick pt ps) s) = 1"
    "servo_target_ocr (step (Tick pt ps) s) = 375"
    "servo_current_ocr (step (Tick pt ps) s) = 141"
    "current_spi_status (step (Tick pt ps) s) = 0"
  using assms
  by (simp_all add: main_loop_body_def toggle_button_section_def fan_state_section_def
      servo_homing_def Let_def const_defs)

lemma reset_state_eq:
  "reset_state = \<lparr>motor_running = 0, speed_level = 0, user_ready_flag = 0,
     servo_homing_required = 1, servo_current_ocr = 375, servo_target_ocr = 377,
     current_spi_status = 111, SPDR = 111, OCR1A = 375, OCR3A = 1199, ICR3 = 1999, TCCR3A = 2,
     TCCR3B = 24, FAN_PWM_PORT = 0, LED_PORT = 0, toggle_button_pressed = 0,
     speed_button_pressed = 0\<rparr>"
  by (simp add: reset_state_def running_state_eq model_defs const_defs Let_def)

lemma reachable_reset_state: "reachable reset_state"
  unfolding reset_state_def by (rule reachable_run) (rule reachable_running_state)

text \<open>
  C6, as stated, lets the current position reach the stored target after
  \<open>|target - current|\<close> iterations in every state. That fails when the fan is stopped:
  the loop then moves the servo towards 375 and never reads the stored target. After
  ANGLE 91 and RESET the target is 377 and the current position 375, at distance 2; two
  iterations later the target is still 377 and the current position still 375.
\<close>

theorem convergence_counterexample:
  "reachable reset_state \<and>
   servo_current_ocr reset_state = 375 \<and> servo_target_ocr reset_state = 377 \<and>
   servo_distance (servo_current_ocr reset_state) (servo_target_ocr reset_state) = 2 \<and>
   servo_target_ocr (run [Tick 0 0, Tick 0 0] reset_state) = 377 \<and>
   servo_current_ocr (run [Tick 0 0, Tick 0 0] reset_state) = 375 \<and>
   servo_current_ocr (run [Tick 0 0, Tick 0 0] reset_state) \<noteq>
     servo_target_ocr (run [Tick 0 0, Tick 0 0] reset_state)"
proof -
  have v: "servo_current_ocr reset_state = 375" "servo_target_ocr reset_state = 377"
    "servo_distance (servo_current_ocr reset_state) (servo_target_ocr reset_state) = 2"
    by (simp_all add: reset_state_eq servo_distance_def)
  have w: "servo_target_ocr (run [Tick 0 0, Tick 0 0] reset_state) = 377"
    "servo_current_ocr (run [Tick 0 0, Tick 0 0] reset_state) = 375"
    by (simp_all add: reset_state_eq model_defs const_defs Let_def)
  then have n: "servo_current_ocr (run [Tick 0 0, Tick 0 0] reset_state) \<noteq>
     servo_target_ocr (run [Tick 0 0, Tick 0 0] reset_state)" by simp
  from reachable_reset_state v w n show ?thesis by (intro conjI)
qed

text \<open>
  C6, amended. With no byte arriving and the on/off button not pressed: while the fan
  runs, the target stays fixed and each iteration moves the current position one unit
  towards it, so the two are equal after exactly \<open>|target - current|\<close> iterations and
  not earlier, and stay equal. While the fan is stopped and \<open>servo_homing_required\<close> or
  \<open>user_ready_flag\<close> is set, the same holds with 375 in place of the target; with
  neither set the servo does not move. In particular, when the on/off button is pressed in
  the off state with the servo at 140, the target becomes 375 and the status is 0 after
  each of the first 234 iterations and 111 after the 235th and every later one, the
  iteration that sees the press counted as the first.
\<close>

theorem servo_convergence:
  assumes "list_all quiet_tick es"
  shows "(motor_running s \<noteq> 0 \<longrightarrow>
            servo_target_ocr (run es s) = servo_target_ocr s \<and>
            servo_distance (servo_current_ocr (run es s)) (servo_target_ocr s) =
              servo_distance (servo_current_ocr s) (servo_target_ocr s) - length es \<and>
            (servo_current_ocr (run es s) = servo_target_ocr s \<longleftrightarrow>
               servo_distance (servo_current_ocr s) (servo_target_ocr s) \<le> length es)) \<and>
         (motor_running s = 0 \<and> (servo_homing_required s \<noteq> 0 \<or> user_ready_flag s = 1) \<longrightarrow>
            servo_distance (servo_current_ocr (run es s)) 375 =
              servo_distance (servo_current_ocr s) 375 - length es \<and>
            (servo_current_ocr (run es s) = 375 \<longleftrightarrow>
               servo_distance (servo_current_ocr s) 375 \<le> length es)) \<and>
         (motor_running s = 0 \<and> servo_homing_required s = 0 \<and> user_ready_flag s \<noteq> 1 \<longrightarrow>
            servo_current_ocr (run es s) = servo_current_ocr s) \<and>
         (motor_running s = 0 \<and> user_ready_flag s \<noteq> 1 \<and> toggle_button_pressed s = 0 \<and>
          servo_current_ocr s = 140 \<and> pind_toggle AND push_bit SWITCH_TOGGLE_PIN 1 \<noteq> 0 \<longrightarrow>
            user_ready_flag (step (Tick pind_toggle pind_speed) s) = 1 \<and>
            servo_target_ocr (step (Tick pind_toggle pind_speed) s) = 375 \<and>
            current_spi_status (run (Tick pind_toggle pind_speed # es) s) =
              (if 235 \<le> length (Tick pind_toggle pind_speed # es) then 111 else 0))"
proof -
  have a: "servo_target_ocr (run es s) = servo_target_ocr s \<and>
            servo_distance (servo_current_ocr (run es s)) (servo_target_ocr s) =
              servo_distance (servo_current_ocr s) (servo_target_ocr s) - length es \<and>
            (servo_current_ocr (run es s) = servo_target_ocr s \<longleftrightarrow>
               servo_distance (servo_current_ocr s) (servo_target_ocr s) \<le> length es)"
    if "motor_running s \<noteq> 0"
    using running_converge[OF assms that]
      servo_distance_zero[of "servo_current_ocr (run es s)" "servo_target_ocr s"]
    by simp
  have b: "servo_distance (servo_current_ocr (run es s)) 375 =
              servo_distance (servo_current_ocr s) 375 - length es \<and>
            (servo_current_ocr (run es s) = 375 \<longleftrightarrow>
               servo_distance (servo_current_ocr s) 375 \<le> length es)"
    if "motor_running s = 0" "servo_homing_required s \<noteq> 0 \<or> user_ready_flag s = 1"
  proof -
    from that(2)
    have j: "servo_homing_required s \<noteq> 0 \<or> user_ready_flag s = 1 \<or> servo_current_ocr s = 375"
      by blast
    from homing_converge[OF assms that(1) j]
      servo_distance_zero[of "servo_current_ocr (run es s)" 375]
    show ?thesis by simp
  qed
  have c: "servo_current_ocr (run es s) = servo_current_ocr s"
    if "motor_running s = 0" "servo_homing_required s = 0" "user_ready_flag s \<noteq> 1"
    by (rule parked_stays[OF assms that])
  have d: "user_ready_flag (step (Tick pind_toggle pind_speed) s) = 1 \<and>
            servo_target_ocr (step (Tick pind_toggle pind_speed) s) = 375 \<and>
            current_spi_status (run (Tick pind_toggle pind_speed # es) s) =
              (if 235 \<le> length (Tick pind_toggle pind_speed # es) then 111 else 0)"
    if "motor_running s = 0" "user_ready_flag s \<noteq> 1" "toggle_button_pressed s = 0"
      "servo_current_ocr s = 140" "pind_toggle AND push_bit SWITCH_TOGGLE_PIN 1 \<noteq> 0"
  proof -
    note t = toggle_on_from_idle[OF that, of pind_speed]
    have dist: "servo_distance (servo_current_ocr (step (Tick pind_toggle pind_speed) s)) 375 = 234"
      using t(4) by (simp add: servo_distance_def)
    have "current_spi_status (run es (step (Tick pind_toggle pind_speed) s)) =
        (if 234 \<le> length es then 111 else 0)"
    proof (cases "es = []")
      case True
      then show ?thesis using t(5) by simp
    next
      case False
      from homing_status[OF assms False t(1) t(2)] dist show ?thesis by simp
    qed
    then show ?thesis using t(2,3) by simp
  qed
  from a b c d show ?thesis by blast
qed

theorem servo_convergence_witness:
  "list_all quiet_tick (replicate 235 (Tick 0 0)) \<and>
   list_all quiet_tick (replicate 234 (Tick 0 0)) \<and>
   motor_running (ISR_SPI_STC 170 running_state) \<noteq> 0 \<and>
   servo_current_ocr (ISR_SPI_STC 170 running_state) = 375 \<and>
   servo_target_ocr (ISR_SPI_STC 170 running_state) = 610 \<and>
   servo_current_ocr (run (replicate 235 (Tick 0 0)) (ISR_SPI_STC 170 running_state)) = 610 \<and>
   servo_current_ocr (run (replicate 234 (Tick 0 0)) (ISR_SPI_STC 170 running_state)) \<noteq> 610 \<and>
   motor_running idle_ccw_state = 0 \<and> servo_homing_required idle_ccw_state \<noteq> 0 \<and>
   user_ready_flag idle_ccw_state \<noteq> 1 \<and> toggle_button_pressed idle_ccw_state = 0 \<and>
   servo_current_ocr idle_ccw_state = 140 \<and>
   (2 :: 8 word) AND push_bit SWITCH_TOGGLE_PIN 1 \<noteq> 0 \<and>
   servo_current_ocr (run (replicate 235 (Tick 0 0)) idle_ccw_state) = 375 \<and>
   servo_current_ocr (run (replicate 234 (Tick 0 0)) idle_ccw_state) \<noteq> 375 \<and>
   servo_target_ocr (step (Tick 2 0) idle_ccw_state) = 375 \<and>
   current_spi_status (run (Tick 2 0 # replicate 233 (Tick 0 0)) idle_ccw_state) = 0 \<and>
   current_spi_status (run (Tick 2 0 # replicate 234 (Tick 0 0)) idle_ccw_state) = 111 \<and>
   motor_running (main_startup hw_zero) = 0 \<and>
   servo_homing_required (main_startup hw_zero) = 0 \<and>
   user_ready_flag (main_startup hw_zero) \<noteq> 1 \<and>
   servo_current_ocr (run (replicate 235 (Tick 0 0)) (main_startup hw_zero)) = 375"
proof -
  have q: "list_all quiet_tick (replicate 235 (Tick 0 0))"
    "list_all quiet_tick (replicate 234 (Tick 0 0))"
    "list_all quiet_tick (replicate 233 (Tick 0 0))"
    by (simp_all add: list_all_iff)
  have r: "motor_running (ISR_SPI_STC 170 running_state) \<noteq> 0"
    "servo_current_ocr (ISR_SPI_STC 170 running_state) = 375"
    "servo_target_ocr (ISR_SPI_STC 170 running_state) = 610"
    by (simp_all add: running_state_eq model_defs const_defs Let_def)
  have i: "motor_running idle_ccw_state = 0" "servo_homing_required idle_ccw_state \<noteq> 0"
    "user_ready_flag idle_ccw_state \<noteq> 1" "toggle_button_pressed idle_ccw_state = 0"
    "servo_current_ocr idle_ccw_state = 140"
    "(2 :: 8 word) AND push_bit SWITCH_TOGGLE_PIN 1 \<noteq> 0"
    by (simp_all add: idle_ccw_state_def const_defs)
  have z: "motor_running (main_startup hw_zero) = 0"
    "servo_homing_required (main_startup hw_zero) = 0"
    "user_ready_flag (main_startup hw_zero) \<noteq> 1"
    "servo_current_ocr (main_startup hw_zero) = 375"
    by (simp_all add: startup_state_eq)
  have d1: "servo_distance 375 610 = 235" "servo_distance 140 375 = 235"
    by (simp_all add: servo_distance_def)
  from servo_convergence[OF q(1), of "ISR_SPI_STC 170 running_state", THEN conjunct1] r d1
  have a1: "servo_current_ocr (run (replicate 235 (Tick 0 0)) (ISR_SPI_STC 170 running_state)) = 610"
    by simp
  from servo_convergence[OF q(2), of "ISR_SPI_STC 170 running_state", THEN conjunct1] r d1
  have a2: "servo_current_ocr (run (replicate 234 (Tick 0 0)) (ISR_SPI_STC 170 running_state)) \<noteq> 610"
    by simp
  from servo_convergence[OF q(1), of idle_ccw_state, THEN conjunct2, THEN conjunct1] i d1
  have b1: "servo_current_ocr (run (replicate 235 (Tick 0 0)) idle_ccw_state) = 375"
    by simp
  from servo_convergence[OF q(2), of idle_ccw_state, THEN conjunct2, THEN conjunct1] i d1
  have b2: "servo_current_ocr (run (replicate 234 (Tick 0 0)) idle_ccw_state) \<noteq> 375"
    by simp
  from servo_convergence[OF q(3), of idle_ccw_state 2 0, THEN conjunct2, THEN conjunct2, THEN conjunct2] i
  have c1: "servo_target_ocr (step (Tick 2 0) idle_ccw_state) = 375"
    "current_spi_status (run (Tick 2 0 # replicate 233 (Tick 0 0)) idle_ccw_state) = 0"
    by simp_all
  from servo_convergence[OF q(2), of idle_ccw_state 2 0, THEN conjunct2, THEN conjunct2, THEN conjunct2] i
  have c2: "current_spi_status (run (Tick 2 0 # replicate 234 (Tick 0 0)) idle_ccw_state) = 111"
    by simp
  from servo_convergence[OF q(1), of "main_startup hw_zero", THEN conjunct2, THEN conjunct2, THEN conjunct1] z
  have e: "servo_current_ocr (run (replicate 235 (Tick 0 0)) (main_startup hw_zero)) = 375"
    by simp
  from q(1,2) r a1 a2 i b1 b2 c1 c2 z(1-3) e show ?thesis by (intro conjI)
qed

subsection \<open>Homing while the fan is stopped\<close>

text \<open>
  C7, as stated, has the servo target forced to 375 on every iteration with the fan stopped
  and a homing flag set. The stopped branch of the loop never writes the target: after
  ANGLE 91 and RESET the target is 377, the fan is stopped and homing is required, and
  the target is still 377 after the next iteration.
\<close>

theorem homing_target_counterexample:
  "reachable reset_state \<and>
   motor_running reset_state = 0 \<and> servo_homing_required reset_state = 1 \<and>
   servo_target_ocr reset_state = 377 \<and>
   servo_target_ocr (main_loop_body 0 0 reset_state) = 377 \<and>
   servo_target_ocr (main_loop_body 0 0 reset_state) \<noteq> 375"
proof -
  have v: "motor_running reset_state = 0" "servo_homing_required reset_state = 1"
    "servo_target_ocr reset_state = 377"
    by (simp_all add: reset_state_eq)
  have w: "servo_target_ocr (main_loop_body 0 0 reset_state) = 377"
    by (simp add: reset_state_eq model_defs const_defs Let_def)
  then have n: "servo_target_ocr (main_loop_body 0 0 reset_state) \<noteq> 375" by simp
  from reachable_reset_state v w n show ?thesis by (intro conjI)
qed

lemma homing_section_fields:
  assumes "motor_running s = 0" "servo_homing_required s \<noteq> 0 \<or> user_ready_flag s = 1"
  shows "servo_current_ocr s < 375 \<Longrightarrow>
           servo_current_ocr (fan_state_section p s) = servo_current_ocr s + 1 \<and>
           servo_homing_required (fan_state_section p s) = servo_homing_required s"
    "375 < servo_current_ocr s \<Longrightarrow>
           servo_current_ocr (fan_state_section p s) = servo_current_ocr s - 1 \<and>
           servo_homing_required (fan_state_section p s) = servo_homing_required s"
    "servo_current_ocr s = 375 \<Longrightarrow>
           servo_current_ocr (fan_state_section p s) = 375 \<and>
           servo_homing_required (fan_state_section p s) = 0"
    "OCR1A (fan_state_section p s) =
       (if servo_current_ocr s = 375 then OCR1A s else servo_current_ocr (fan_state_section p s))"
  using assms
  by (auto simp add: fan_state_section_def servo_homing_def Let_def const_defs)

lemma homing_flag_never_set:
  "servo_homing_required s = 0 \<Longrightarrow> servo_homing_required (fan_state_section p s) = 0"
  by (simp add: fan_state_section_def speed_button_section_def servo_track_def
      servo_homing_def Let_def)

text \<open>
  C7, amended. On every iteration that finds the fan stopped and
  \<open>servo_homing_required\<close> or \<open>user_ready_flag\<close> set, the current position moves one unit
  towards 375, whatever the stored target is, and the stored target keeps its value. An
  iteration that finds the current position at 375 leaves it there and clears
  \<open>servo_homing_required\<close>, which the loop then leaves clear.
\<close>

theorem homing_step:
  assumes "motor_running s = 0"
    and "servo_homing_required s \<noteq> 0 \<or> user_ready_flag s = 1"
  shows "servo_target_ocr (fan_state_section pind s) = servo_target_ocr s \<and>
         servo_distance (servo_current_ocr (fan_state_section pind s)) 375 =
           servo_distance (servo_current_ocr s) 375 - 1 \<and>
         (servo_current_ocr s < 375 \<longrightarrow>
            uint (servo_current_ocr (fan_state_section pind s)) = uint (servo_current_ocr s) + 1 \<and>
            servo_homing_required (fan_state_section pind s) = servo_homing_required s) \<and>
         (375 < servo_current_ocr s \<longrightarrow>
            uint (servo_current_ocr (fan_state_section pind s)) = uint (servo_current_ocr s) - 1 \<and>
            servo_homing_required (fan_state_section pind s) = servo_homing_required s) \<and>
         (servo_current_ocr s = 375 \<longrightarrow>
            servo_current_ocr (fan_state_section pind s) = 375 \<and>
            servo_homing_required (fan_state_section pind s) = 0 \<and>
            servo_homing_required (fan_state_section pind' (fan_state_section pind s)) = 0)"
proof -
  have j: "servo_homing_required s \<noteq> 0 \<or> user_ready_flag s = 1 \<or> servo_current_ocr s = 375"
    using assms(2) by blast
  have d: "servo_distance (servo_current_ocr (fan_state_section pind s)) 375 =
           servo_distance (servo_current_ocr s) 375 - 1"
    using homing_distance[OF j] assms(1) by (simp add: fan_state_section_current)
  have up: "uint (servo_current_ocr (fan_state_section pind s)) = uint (servo_current_ocr s) + 1 \<and>
            servo_homing_required (fan_state_section pind s) = servo_homing_required s"
    if "servo_current_ocr s < 375"
    using homing_section_fields(1)[OF assms that, of pind] word16_inc_uint[OF that] by simp
  have down: "uint (servo_current_ocr (fan_state_section pind s)) = uint (servo_current_ocr s) - 1 \<and>
            servo_homing_required (fan_state_section pind s) = servo_homing_required s"
    if "375 < servo_current_ocr s"
    using homing_section_fields(2)[OF assms that, of pind] word16_dec_uint[OF that] by simp
  have at: "servo_current_ocr (fan_state_section pind s) = 375 \<and>
            servo_homing_required (fan_state_section pind s) = 0 \<and>
            servo_homing_required (fan_state_section pind' (fan_state_section pind s)) = 0"
    if "servo_current_ocr s = 375"
    using homing_section_fields(3)[OF assms that, of pind]
      homing_flag_never_set[of "fan_state_section pind s" pind'] by simp
  from d up down at show ?thesis
    by (simp add: fan_state_section_fields)
qed

theorem homing_step_witness:
  "motor_running reset_state = 0 \<and> servo_homing_required reset_state \<noteq> 0 \<and>
   servo_current_ocr reset_state = 375 \<and>
   servo_target_ocr (fan_state_section 0 reset_state) = 377 \<and>
   servo_current_ocr (fan_state_section 0 reset_state) = 375 \<and>
   servo_homing_required (fan_state_section 0 reset_state) = 0 \<and>
   motor_running idle_ccw_state = 0 \<and> servo_homing_required idle_ccw_state \<noteq> 0 \<and>
   servo_current_ocr idle_ccw_state < 375 \<and>
   uint (servo_current_ocr (fan_state_section 0 idle_ccw_state)) = 141 \<and>
   servo_homing_required (fan_state_section 0 idle_ccw_state) = 1"
proof -
  have v: "motor_running reset_state = 0" "servo_homing_required reset_state \<noteq> 0"
    "servo_current_ocr reset_state = 375" "servo_target_ocr reset_state = 377"
    by (simp_all add: reset_state_eq)
  have i: "motor_running idle_ccw_state = 0" "servo_homing_required idle_ccw_state \<noteq> 0"
    "servo_current_ocr idle_ccw_state < 375" "uint (servo_current_ocr idle_ccw_state) = 140"
    "servo_homing_required idle_ccw_state = 1"
    by (simp_all add: idle_ccw_state_def)
  have h1: "servo_homing_required reset_state \<noteq> 0 \<or> user_ready_flag reset_state = 1"
    using v(2) by blast
  have h2: "servo_homing_required idle_ccw_state \<noteq> 0 \<or> user_ready_flag idle_ccw_state = 1"
    using i(2) by blast
  from homing_step[OF v(1) h1, of 0 0] v(3,4)
  have a: "servo_target_ocr (fan_state_section 0 reset_state) = 377"
    "servo_current_ocr (fan_state_section 0 reset_state) = 375"
    "servo_homing_required (fan_state_section 0 reset_state) = 0"
    by simp_all
  from homing_step[OF i(1) h2, of 0 0] i(3,4,5)
  have b: "uint (servo_current_ocr (fan_state_section 0 idle_ccw_state)) = 141"
    "servo_homing_required (fan_state_section 0 idle_ccw_state) = 1"
    by simp_all
  from v(1-3) a i(1-3) b show ?thesis by (intro conjI)
qed

end
